theory Spec2Isabelle
  imports Main "HOL-Library.Word"
begin

section \<open>The document viewer command \<open>bin/cmd.js\<close>\<close>

text \<open>
  The whole program is
  \<^verbatim>\<open>
  var fs = require('fs')
  var pager = require('default-pager')

  module.exports = fs.createReadStream(__dirname + '/../README.md')

  if (require.main === module)
    module.exports.pipe(pager())
  \<close>
  The three statements are embedded in \<open>cmd\<close> below. Everything they call belongs to the
  platform (the file system, Node's \<open>fs.ReadStream\<close>, \<open>Readable.pipe\<close>, the event
  emitter's rule for an \<open>error\<close> event nobody listens to, and the \<open>default-pager\<close>
  package): these are modelled first, as far as the program uses them.
\<close>

subsection \<open>The file system\<close>

type_synonym byte = "8 word"

datatype errno = ENOENT | EACCES

record inode =
  contents :: "byte list"
  readable :: bool

text \<open>The lookup of an absolute path by the operating system.\<close>

type_synonym filesystem = "string \<Rightarrow> inode option"

definition is_absolute :: "string \<Rightarrow> bool" where
  "is_absolute p = (case p of [] \<Rightarrow> False | c # _ \<Rightarrow> c = CHR ''/'')"

text \<open>A relative path handed to \<open>open\<close> is taken from the working directory of the process.\<close>

definition resolve :: "string \<Rightarrow> string \<Rightarrow> string" where
  "resolve wd p = (if is_absolute p then p else wd @ ''/'' @ p)"

definition fs_open :: "filesystem \<Rightarrow> string \<Rightarrow> string \<Rightarrow> errno + byte list" where
  "fs_open fsys wd p =
     (case fsys (resolve wd p) of
        None \<Rightarrow> Inl ENOENT
      | Some f \<Rightarrow> if readable f then Inr (contents f) else Inl EACCES)"

subsection \<open>\<open>fs.ReadStream\<close>\<close>

text \<open>
  \<open>fs.createReadStream(path)\<close> never fails synchronously: the constructor issues the
  \<open>open\<close> request at once and returns the handle, here in status \<open>Opening\<close>. The request
  completes on the event loop, with the descriptor or with an \<open>error\<close> event. In
  \<open>Reading bs n\<close> the descriptor is held on a file of bytes \<open>bs\<close>, of which the first
  \<open>n\<close> have been emitted (the buffer Node fills ahead of its consumer is not modelled).
  A stream that is being consumed reads chunks of at most \<open>highWaterMark\<close> bytes, emits
  each as a \<open>data\<close> event, and emits \<open>end\<close> when a read returns no byte. The Document is
  not changed while the program runs, so the bytes are those found when the file was
  opened.
\<close>

datatype status = Opening | Reading "byte list" nat | Ended | Failed errno

datatype stream_event = Data "byte list" | End | Error errno

record read_stream =
  path :: string
  status :: status

definition highWaterMark :: nat where
  "highWaterMark = 64 * 1024"

definition createReadStream :: "string \<Rightarrow> read_stream" where
  "createReadStream p = \<lparr>path = p, status = Opening\<rparr>"

definition stream_step ::
  "filesystem \<Rightarrow> string \<Rightarrow> read_stream \<Rightarrow> stream_event list \<times> read_stream" where
  "stream_step fsys wd s =
     (case status s of
        Opening \<Rightarrow>
          (case fs_open fsys wd (path s) of
             Inl e \<Rightarrow> ([Error e], s\<lparr>status := Failed e\<rparr>)
           | Inr bs \<Rightarrow> ([], s\<lparr>status := Reading bs 0\<rparr>))
      | Reading bs pos \<Rightarrow>
          (let chunk = take highWaterMark (drop pos bs) in
           if chunk = [] then ([End], s\<lparr>status := Ended\<rparr>)
           else ([Data chunk], s\<lparr>status := Reading bs (pos + length chunk)\<rparr>))
      | Ended \<Rightarrow> ([], s)
      | Failed e \<Rightarrow> ([], s))"

definition settled :: "read_stream \<Rightarrow> bool" where
  "settled s = (case status s of Ended \<Rightarrow> True | Failed e \<Rightarrow> True | _ \<Rightarrow> False)"

text \<open>What is left for a stream to do, counted in steps: the measure of \<open>drain\<close>.\<close>

definition remaining :: "filesystem \<Rightarrow> string \<Rightarrow> read_stream \<Rightarrow> nat" where
  "remaining fsys wd s =
     (case status s of
        Opening \<Rightarrow> (case fs_open fsys wd (path s) of Inl e \<Rightarrow> 1 | Inr bs \<Rightarrow> 2 + length bs)
      | Reading bs pos \<Rightarrow> 1 + (length bs - pos)
      | Ended \<Rightarrow> 0
      | Failed e \<Rightarrow> 0)"

text \<open>A consumed stream runs until it has ended or failed.\<close>

function drain ::
  "filesystem \<Rightarrow> string \<Rightarrow> read_stream \<Rightarrow> stream_event list \<times> read_stream" where
  "drain fsys wd s =
     (if settled s then ([], s)
      else (case drain fsys wd (snd (stream_step fsys wd s)) of
              (evs, s') \<Rightarrow> (fst (stream_step fsys wd s) @ evs, s')))"
  by pat_completeness auto
termination
  by (relation "measure (\<lambda>(fsys, wd, s). remaining fsys wd s)")
     (auto simp: settled_def remaining_def stream_step_def Let_def highWaterMark_def
           split: status.splits sum.splits)

declare drain.simps [simp del]

text \<open>Any number of further steps on a handle, for a caller that keeps reading it.\<close>

fun steps ::
  "nat \<Rightarrow> filesystem \<Rightarrow> string \<Rightarrow> read_stream \<Rightarrow> stream_event list \<times> read_stream" where
  "steps 0 fsys wd s = ([], s)"
| "steps (Suc n) fsys wd s =
     (case stream_step fsys wd s of
        (evs, s') \<Rightarrow> (case steps n fsys wd s' of (evs', s'') \<Rightarrow> (evs @ evs', s'')))"

subsection \<open>The process\<close>

text \<open>
  \<open>pager()\<close> spawns the pager as a child process that inherits standard output and
  returns the child's standard input, a writable stream. \<open>src.pipe(dest)\<close> registers
  listeners on \<open>src\<close> that write every \<open>data\<close> chunk to \<open>dest\<close> and end \<open>dest\<close> on
  \<open>end\<close>; it registers no \<open>error\<close> listener on \<open>src\<close>.
\<close>

record writable =
  writes :: "byte list list"
  finished :: bool

record process =
  module_exports :: read_stream
  pager_stdin :: "writable option"
  piped :: bool
  data_listener :: bool
  error_listener :: bool
  emitted :: "stream_event list"
  stderr :: "string list"
  exit_code :: nat

text \<open>
  A program that requires the module, described by what it does with the handle before
  it returns to the event loop.
\<close>

record importer =
  consumes :: bool
  handles_error :: bool

record env =
  dirname :: string
  cwd :: string
  argv :: "string list"
  fs :: filesystem
  parent :: "importer option"

text \<open>\<open>require.main === module\<close>: the file was started by \<open>node\<close>, not required.\<close>

definition require_main_is_module :: "env \<Rightarrow> bool" where
  "require_main_is_module e = (parent e = None)"

definition start :: "read_stream \<Rightarrow> process" where
  "start s = \<lparr>module_exports = s, pager_stdin = None, piped = False,
              data_listener = False, error_listener = False,
              emitted = [], stderr = [], exit_code = 0\<rparr>"

definition pager :: "process \<Rightarrow> process" where
  "pager p = p\<lparr>pager_stdin := Some \<lparr>writes = [], finished = False\<rparr>\<rparr>"

definition pipe :: "process \<Rightarrow> process" where
  "pipe p = p\<lparr>piped := True\<rparr>"

definition document_path :: "env \<Rightarrow> string" where
  "document_path e = dirname e @ ''/../README.md''"

text \<open>The module body, lines 6 to 9.\<close>

definition cmd :: "env \<Rightarrow> process" where
  "cmd e =
     (let p = start (createReadStream (dirname e @ ''/../README.md'')) in
      if require_main_is_module e then pipe (pager p) else p)"

definition attach :: "importer \<Rightarrow> process \<Rightarrow> process" where
  "attach i p = p\<lparr>data_listener := consumes i, error_listener := handles_error i\<rparr>"

definition dest_write :: "byte list \<Rightarrow> writable \<Rightarrow> writable" where
  "dest_write c w = w\<lparr>writes := writes w @ [c]\<rparr>"

definition dest_end :: "writable \<Rightarrow> writable" where
  "dest_end w = w\<lparr>finished := True\<rparr>"

definition errno_text :: "errno \<Rightarrow> string" where
  "errno_text e =
     (case e of ENOENT \<Rightarrow> ''ENOENT: no such file or directory''
              | EACCES \<Rightarrow> ''EACCES: permission denied'')"

definition diagnostic :: "errno \<Rightarrow> string \<Rightarrow> string" where
  "diagnostic e p = ''Error: '' @ errno_text e @ '', open '' @ p"

text \<open>
  The delivery of one event of the handle. An \<open>error\<close> event without a listener is
  thrown: the process prints the error on standard error and exits with code 1.
\<close>

fun dispatch :: "stream_event \<Rightarrow> process \<Rightarrow> process" where
  "dispatch (Data c) p =
     (let q = p\<lparr>emitted := emitted p @ [Data c]\<rparr> in
      if piped q then q\<lparr>pager_stdin := map_option (dest_write c) (pager_stdin q)\<rparr> else q)"
| "dispatch End p =
     (let q = p\<lparr>emitted := emitted p @ [End]\<rparr> in
      if piped q then q\<lparr>pager_stdin := map_option dest_end (pager_stdin q)\<rparr> else q)"
| "dispatch (Error e) p =
     (let q = p\<lparr>emitted := emitted p @ [Error e]\<rparr> in
      if error_listener q then q
      else q\<lparr>stderr := stderr q @ [diagnostic e (path (module_exports q))],
              exit_code := 1\<rparr>)"

definition flowing :: "process \<Rightarrow> bool" where
  "flowing p = (piped p \<or> data_listener p)"

text \<open>
  The event loop. The pending \<open>open\<close> completes whether or not anybody consumes the
  handle; chunks are read only from a handle that is consumed.
\<close>

definition event_loop :: "filesystem \<Rightarrow> string \<Rightarrow> process \<Rightarrow> process" where
  "event_loop fsys wd p =
     (case (if flowing p then drain fsys wd (module_exports p)
            else if status (module_exports p) = Opening
                 then stream_step fsys wd (module_exports p)
                 else ([], module_exports p)) of
        (evs, s') \<Rightarrow> fold dispatch evs (p\<lparr>module_exports := s'\<rparr>))"

text \<open>
  The process when it first returns to the event loop: the module body has run and, when
  the module was required, the importer has had the handle.
\<close>

definition loaded :: "env \<Rightarrow> process" where
  "loaded e = (case parent e of None \<Rightarrow> cmd e | Some i \<Rightarrow> attach i (cmd e))"

definition run :: "env \<Rightarrow> process" where
  "run e = event_loop (fs e) (cwd e) (loaded e)"

definition pager_input :: "process \<Rightarrow> byte list" where
  "pager_input p = (case pager_stdin p of None \<Rightarrow> [] | Some w \<Rightarrow> concat (writes w))"

text \<open>
  The node process writes nothing to standard output itself; the pager, which inherits
  it, shows what it has received.
\<close>

definition stdout :: "process \<Rightarrow> byte list" where
  "stdout p = pager_input p"

text \<open>The Document as the process finds it.\<close>

definition document :: "env \<Rightarrow> errno + byte list" where
  "document e = fs_open (fs e) (cwd e) (document_path e)"

fun payload :: "stream_event list \<Rightarrow> byte list" where
  "payload [] = []"
| "payload (Data c # evs) = c @ payload evs"
| "payload (ev # evs) = payload evs"

subsection \<open>Describing what a stream emits\<close>

text \<open>The sequence of chunks that reading \<open>xs\<close> in pieces of \<open>n\<close> elements gives.\<close>

function chunks :: "nat \<Rightarrow> 'a list \<Rightarrow> 'a list list" where
  "chunks n xs = (if n = 0 \<or> xs = [] then [] else take n xs # chunks n (drop n xs))"
  by pat_completeness auto
termination
  by (relation "measure (\<lambda>(n, xs). length xs)") auto

declare chunks.simps [simp del]

subsection \<open>Sample installations\<close>

text \<open>The first line of the guide, \<open># module best practices\<close>, as bytes.\<close>

definition sample_readme :: "byte list" where
  "sample_readme =
     [35, 32, 109, 111, 100, 117, 108, 101, 32, 98, 101, 115, 116, 32,
      112, 114, 97, 99, 116, 105, 99, 101, 115, 10]"

definition sample_fs :: filesystem where
  "sample_fs p =
     (if p = ''/pkg/bin/../README.md''
      then Some \<lparr>contents = sample_readme, readable = True\<rparr> else None)"

definition sample_cli :: env where
  "sample_cli = \<lparr>dirname = ''/pkg/bin'', cwd = ''/home/user'', argv = [],
                  fs = sample_fs, parent = None\<rparr>"

definition sample_library :: env where
  "sample_library = sample_cli\<lparr>parent := Some \<lparr>consumes = True, handles_error = True\<rparr>\<rparr>"

definition idle_library :: env where
  "idle_library = sample_cli\<lparr>parent := Some \<lparr>consumes = False, handles_error = False\<rparr>\<rparr>"

text \<open>An installation that has lost its \<open>README.md\<close>.\<close>

definition broken_cli :: env where
  "broken_cli = sample_cli\<lparr>fs := (\<lambda>p. None)\<rparr>"

definition broken_library :: env where
  "broken_library = broken_cli\<lparr>parent := Some \<lparr>consumes = True, handles_error = True\<rparr>\<rparr>"

definition careless_library :: env where
  "careless_library = broken_cli\<lparr>parent := Some \<lparr>consumes = True, handles_error = False\<rparr>\<rparr>"

definition abandoned_library :: env where
  "abandoned_library = broken_cli\<lparr>parent := Some \<lparr>consumes = False, handles_error = False\<rparr>\<rparr>"

section \<open>Properties\<close>

subsection \<open>Chunks and the stream\<close>

lemma highWaterMark_pos: "0 < highWaterMark"
  by (simp add: highWaterMark_def)

lemma chunks_Nil: "chunks n [] = []"
  by (simp add: chunks.simps)

lemma concat_chunks: "0 < n \<Longrightarrow> concat (chunks n xs) = xs"
proof (induction n xs rule: chunks.induct)
  case (1 n xs)
  show ?case
  proof (cases "xs = []")
    case True
    then show ?thesis by (simp add: chunks_Nil)
  next
    case False
    with 1 show ?thesis by (simp add: chunks.simps [of n xs])
  qed
qed

lemma payload_data: "payload (map Data cs @ [End]) = concat cs"
  by (induction cs) simp_all

lemma drain_settled: "settled s \<Longrightarrow> drain fsys wd s = ([], s)"
  by (simp add: drain.simps)

lemma drain_unsettled:
  "\<not> settled s \<Longrightarrow> stream_step fsys wd s = (evs, s') \<Longrightarrow> drain fsys wd s' = (evs', s'')
   \<Longrightarrow> drain fsys wd s = (evs @ evs', s'')"
  by (subst drain.simps) simp

lemma drain_reading:
  "status s = Reading bs pos \<Longrightarrow>
   drain fsys wd s =
     (map Data (chunks highWaterMark (drop pos bs)) @ [End], s\<lparr>status := Ended\<rparr>)"
proof (induction "length bs - pos" arbitrary: pos s rule: less_induct)
  case less
  let ?chunk = "take highWaterMark (drop pos bs)"
  have unsettled: "\<not> settled s"
    using less.prems by (simp add: settled_def)
  show ?case
  proof (cases "?chunk = []")
    case True
    then have empty: "drop pos bs = []"
      using highWaterMark_pos by (cases "drop pos bs") auto
    have step: "stream_step fsys wd s = ([End], s\<lparr>status := Ended\<rparr>)"
      using less.prems True by (simp add: stream_step_def)
    have rest: "drain fsys wd (s\<lparr>status := Ended\<rparr>) = ([], s\<lparr>status := Ended\<rparr>)"
      by (simp add: drain_settled settled_def)
    show ?thesis
      using drain_unsettled [OF unsettled step rest] by (simp add: empty chunks_Nil)
  next
    case False
    let ?s' = "s\<lparr>status := Reading bs (pos + length ?chunk)\<rparr>"
    have nonempty: "drop pos bs \<noteq> []"
      using False by auto
    have step: "stream_step fsys wd s = ([Data ?chunk], ?s')"
      using less.prems False by (simp add: stream_step_def Let_def)
    have inside: "pos < length bs"
      using nonempty by simp
    have some: "0 < length ?chunk"
      using False by blast
    have smaller: "length bs - (pos + length ?chunk) < length bs - pos"
      using inside some by arith
    have rest: "drain fsys wd ?s' =
        (map Data (chunks highWaterMark (drop (pos + length ?chunk) bs)) @ [End],
         ?s'\<lparr>status := Ended\<rparr>)"
      by (rule less.hyps [OF smaller]) simp
    have tail: "drop (pos + length ?chunk) bs = drop highWaterMark (drop pos bs)"
      by (simp add: min_def add.commute)
    have unfold: "chunks highWaterMark (drop pos bs) =
        ?chunk # chunks highWaterMark (drop highWaterMark (drop pos bs))"
      using nonempty highWaterMark_pos by (subst chunks.simps) simp
    show ?thesis
      using drain_unsettled [OF unsettled step rest] unfolding tail unfold by simp
  qed
qed

lemma drain_opening_ok:
  assumes "status s = Opening" and "fs_open fsys wd (path s) = Inr bs"
  shows "drain fsys wd s =
    (map Data (chunks highWaterMark bs) @ [End], s\<lparr>status := Ended\<rparr>)"
proof -
  have unsettled: "\<not> settled s"
    using assms by (simp add: settled_def)
  have step: "stream_step fsys wd s = ([], s\<lparr>status := Reading bs 0\<rparr>)"
    using assms by (simp add: stream_step_def)
  have rest: "drain fsys wd (s\<lparr>status := Reading bs 0\<rparr>) =
      (map Data (chunks highWaterMark (drop 0 bs)) @ [End],
       s\<lparr>status := Reading bs 0\<rparr>\<lparr>status := Ended\<rparr>)"
    by (rule drain_reading) simp
  show ?thesis
    using drain_unsettled [OF unsettled step rest] by simp
qed

lemma drain_opening_fail:
  assumes "status s = Opening" and "fs_open fsys wd (path s) = Inl err"
  shows "drain fsys wd s = ([Error err], s\<lparr>status := Failed err\<rparr>)"
proof -
  have unsettled: "\<not> settled s"
    using assms by (simp add: settled_def)
  have step: "stream_step fsys wd s = ([Error err], s\<lparr>status := Failed err\<rparr>)"
    using assms by (simp add: stream_step_def)
  have rest: "drain fsys wd (s\<lparr>status := Failed err\<rparr>) = ([], s\<lparr>status := Failed err\<rparr>)"
    by (simp add: drain_settled settled_def)
  show ?thesis
    using drain_unsettled [OF unsettled step rest] by simp
qed

lemma steps_settled: "settled s \<Longrightarrow> steps n fsys wd s = ([], s)"
  by (induction n) (auto simp: settled_def stream_step_def split: status.splits)

subsection \<open>The four runs of the process\<close>

lemma fold_dispatch_data:
  "fold dispatch (map Data cs) p =
     p\<lparr>emitted := emitted p @ map Data cs,
       pager_stdin :=
         (if piped p then map_option (\<lambda>w. w\<lparr>writes := writes w @ cs\<rparr>) (pager_stdin p)
          else pager_stdin p)\<rparr>"
proof (induction cs arbitrary: p)
  case Nil
  then show ?case by (cases "pager_stdin p") simp_all
next
  case (Cons c cs)
  show ?case
    by (cases "pager_stdin p") (simp_all add: Cons.IH Let_def dest_write_def)
qed

lemma run_entry_ok:
  assumes "parent e = None" and "document e = Inr bs"
  shows "run e =
    \<lparr>module_exports = \<lparr>path = document_path e, status = Ended\<rparr>,
     pager_stdin = Some \<lparr>writes = chunks highWaterMark bs, finished = True\<rparr>,
     piped = True, data_listener = False, error_listener = False,
     emitted = map Data (chunks highWaterMark bs) @ [End], stderr = [], exit_code = 0\<rparr>"
proof -
  let ?s = "createReadStream (document_path e)"
  have d: "drain (fs e) (cwd e) ?s =
      (map Data (chunks highWaterMark bs) @ [End], ?s\<lparr>status := Ended\<rparr>)"
    using assms(2) by (intro drain_opening_ok) (simp_all add: createReadStream_def document_def)
  show ?thesis
    using assms(1) d
    by (simp add: run_def loaded_def event_loop_def cmd_def require_main_is_module_def
        flowing_def pipe_def pager_def start_def fold_dispatch_data Let_def dest_end_def
        document_path_def createReadStream_def)
qed

lemma run_entry_fail:
  assumes "parent e = None" and "document e = Inl err"
  shows "run e =
    \<lparr>module_exports = \<lparr>path = document_path e, status = Failed err\<rparr>,
     pager_stdin = Some \<lparr>writes = [], finished = False\<rparr>,
     piped = True, data_listener = False, error_listener = False,
     emitted = [Error err], stderr = [diagnostic err (document_path e)], exit_code = 1\<rparr>"
proof -
  let ?s = "createReadStream (document_path e)"
  have d: "drain (fs e) (cwd e) ?s = ([Error err], ?s\<lparr>status := Failed err\<rparr>)"
    using assms(2) by (intro drain_opening_fail) (simp_all add: createReadStream_def document_def)
  show ?thesis
    using assms(1) d
    by (simp add: run_def loaded_def event_loop_def cmd_def require_main_is_module_def
        flowing_def pipe_def pager_def start_def Let_def document_path_def
        createReadStream_def)
qed

lemma run_library_ok:
  assumes "parent e = Some i" and "document e = Inr bs"
  shows "run e =
    (if consumes i
     then \<lparr>module_exports = \<lparr>path = document_path e, status = Ended\<rparr>,
           pager_stdin = None, piped = False,
           data_listener = True, error_listener = handles_error i,
           emitted = map Data (chunks highWaterMark bs) @ [End], stderr = [], exit_code = 0\<rparr>
     else \<lparr>module_exports = \<lparr>path = document_path e, status = Reading bs 0\<rparr>,
           pager_stdin = None, piped = False,
           data_listener = False, error_listener = handles_error i,
           emitted = [], stderr = [], exit_code = 0\<rparr>)"
proof -
  let ?s = "createReadStream (document_path e)"
  have d: "drain (fs e) (cwd e) ?s =
      (map Data (chunks highWaterMark bs) @ [End], ?s\<lparr>status := Ended\<rparr>)"
    using assms(2) by (intro drain_opening_ok) (simp_all add: createReadStream_def document_def)
  have s: "stream_step (fs e) (cwd e) ?s = ([], ?s\<lparr>status := Reading bs 0\<rparr>)"
    using assms(2) by (simp add: stream_step_def createReadStream_def document_def)
  show ?thesis
    using assms(1) d s
    by (simp add: run_def loaded_def event_loop_def cmd_def require_main_is_module_def
        flowing_def attach_def start_def fold_dispatch_data Let_def document_path_def
        createReadStream_def)
qed

lemma run_library_fail:
  assumes "parent e = Some i" and "document e = Inl err"
  shows "run e =
    \<lparr>module_exports = \<lparr>path = document_path e, status = Failed err\<rparr>,
     pager_stdin = None, piped = False,
     data_listener = consumes i, error_listener = handles_error i,
     emitted = [Error err],
     stderr = (if handles_error i then [] else [diagnostic err (document_path e)]),
     exit_code = (if handles_error i then 0 else 1)\<rparr>"
proof -
  let ?s = "createReadStream (document_path e)"
  have d: "drain (fs e) (cwd e) ?s = ([Error err], ?s\<lparr>status := Failed err\<rparr>)"
    using assms(2) by (intro drain_opening_fail) (simp_all add: createReadStream_def document_def)
  have s: "stream_step (fs e) (cwd e) ?s = ([Error err], ?s\<lparr>status := Failed err\<rparr>)"
    using assms(2) by (simp add: stream_step_def createReadStream_def document_def)
  show ?thesis
    using assms(1) d s
    by (simp add: run_def loaded_def event_loop_def cmd_def require_main_is_module_def
        flowing_def attach_def start_def Let_def document_path_def createReadStream_def)
qed

subsection \<open>The sample installations, evaluated\<close>

lemma sample_cli_document: "document sample_cli = Inr sample_readme"
  by (simp add: document_def document_path_def fs_open_def resolve_def is_absolute_def
      sample_cli_def sample_fs_def)

lemma broken_cli_document: "document broken_cli = Inl ENOENT"
  by (simp add: document_def fs_open_def broken_cli_def sample_cli_def)

subsection \<open>Facts shared by the claims\<close>

lemma main_parent: "require_main_is_module e \<Longrightarrow> parent e = None"
  by (simp add: require_main_is_module_def)

lemma cmd_exports: "module_exports (cmd e) = createReadStream (document_path e)"
  by (simp add: cmd_def Let_def start_def pipe_def pager_def document_path_def)

lemma cmd_library: "parent e = Some i \<Longrightarrow> cmd e = start (createReadStream (document_path e))"
  by (simp add: cmd_def Let_def require_main_is_module_def document_path_def)

lemma flowing_loaded:
  "flowing (loaded e) = (case parent e of None \<Rightarrow> True | Some i \<Rightarrow> consumes i)"
  by (simp add: flowing_def loaded_def cmd_def Let_def require_main_is_module_def
      pipe_def pager_def start_def attach_def split: option.splits)

lemma run_consumed:
  assumes "flowing (loaded e)" and "document e = Inr bs"
  shows "emitted (run e) = map Data (chunks highWaterMark bs) @ [End]
    \<and> module_exports (run e) = \<lparr>path = document_path e, status = Ended\<rparr>"
proof (cases "parent e")
  case None
  then show ?thesis
    by (simp add: run_entry_ok [OF None assms(2)])
next
  case (Some i)
  moreover have "consumes i"
    using assms(1) Some by (simp add: flowing_loaded)
  ultimately show ?thesis
    by (simp add: run_library_ok [OF Some assms(2)])
qed

lemma absolute_document_path: "is_absolute (dirname e) \<Longrightarrow> is_absolute (document_path e)"
  by (cases "dirname e") (simp_all add: is_absolute_def document_path_def)

lemma document_absolute:
  "is_absolute (dirname e) \<Longrightarrow>
   document e =
     (case fs e (dirname e @ ''/../README.md'') of
        None \<Rightarrow> Inl ENOENT
      | Some f \<Rightarrow> if readable f then Inr (contents f) else Inl EACCES)"
  using absolute_document_path [of e]
  by (simp add: document_def fs_open_def resolve_def document_path_def)

text \<open>The run is determined by who started the program, the path and the Document.\<close>

lemma run_determined:
  assumes "parent e' = parent e" and "document_path e' = document_path e"
    and "document e' = document e"
  shows "run e' = run e"
proof (cases "parent e")
  case None
  show ?thesis
  proof (cases "document e")
    case (Inl err)
    then show ?thesis
      using assms None by (simp add: run_entry_fail)
  next
    case (Inr bs)
    then show ?thesis
      using assms None by (simp add: run_entry_ok)
  qed
next
  case (Some i)
  show ?thesis
  proof (cases "document e")
    case (Inl err)
    then show ?thesis
      using assms Some by (simp add: run_library_fail)
  next
    case (Inr bs)
    then show ?thesis
      using assms Some by (simp add: run_library_ok)
  qed
qed

lemma sample_cli_main: "require_main_is_module sample_cli"
  by (simp add: require_main_is_module_def sample_cli_def)

lemma sample_library_document: "document sample_library = Inr sample_readme"
  by (simp add: document_def document_path_def fs_open_def resolve_def is_absolute_def
      sample_library_def sample_cli_def sample_fs_def)

lemma idle_library_document: "document idle_library = Inr sample_readme"
  by (simp add: document_def document_path_def fs_open_def resolve_def is_absolute_def
      idle_library_def sample_cli_def sample_fs_def)

lemma broken_library_document: "document broken_library = Inl ENOENT"
  by (simp add: document_def fs_open_def broken_library_def broken_cli_def sample_cli_def)

subsection \<open>The claims\<close>

text \<open>
  Claim C1. Started as the top-level program on an installation whose Document can be
  read, the process writes to the pager exactly the chunks the stream emits, in the order
  of the file, and then ends the pager's input: the bytes the pager receives are the
  bytes of the Document, none lost, repeated or changed.
\<close>

theorem entry_point_forwards_document:
  assumes "require_main_is_module e" and "document e = Inr bs"
  shows "pager_stdin (run e) = Some \<lparr>writes = chunks highWaterMark bs, finished = True\<rparr>
    \<and> emitted (run e) = map Data (chunks highWaterMark bs) @ [End]
    \<and> pager_input (run e) = bs"
  by (simp add: run_entry_ok [OF main_parent [OF assms(1)] assms(2)] pager_input_def
      concat_chunks highWaterMark_pos)

theorem entry_point_forwards_document_witness:
  "require_main_is_module sample_cli \<and> document sample_cli = Inr sample_readme
   \<and> pager_input (run sample_cli) = sample_readme"
  using sample_cli_main sample_cli_document
    entry_point_forwards_document [OF sample_cli_main sample_cli_document]
  by simp

text \<open>
  Claim C2 says that in library mode the stream handle is the only observable result of
  importing. On the broken installation, a program that requires the module and never
  touches the handle still gets the diagnostic on standard error and exit code 1: the
  failed open raises an \<open>error\<close> event that nobody listens to.
\<close>

theorem library_import_unhandled_error_counterexample:
  "\<not> require_main_is_module abandoned_library
   \<and> stderr (run abandoned_library) =
       [''Error: ENOENT: no such file or directory, open /pkg/bin/../README.md'']
   \<and> exit_code (run abandoned_library) = 1"
  by (simp add: run_def loaded_def event_loop_def cmd_def require_main_is_module_def
      flowing_def attach_def start_def Let_def document_path_def createReadStream_def
      abandoned_library_def broken_cli_def sample_cli_def stream_step_def fs_open_def
      diagnostic_def errno_text_def)

text \<open>
  Claim C2, amended. Required by another program, the module body leaves a process that
  holds the stream handle and nothing else; in the run no pager is spawned, nothing is
  piped and nothing shows on standard output, whatever the Document is, and the
  importer's listeners are as the importer set them. Nothing is written to standard
  error and the exit code is 0 when the Document can be opened or the importer listens
  for \<open>error\<close> on the handle; when it cannot be opened and nobody listens, the process
  ends with the diagnostic and code 1.
\<close>

theorem library_mode_only_handle:
  assumes "parent e = Some i"
  shows "require_main_is_module e = False
    \<and> cmd e = start (createReadStream (document_path e))
    \<and> pager_stdin (run e) = None \<and> piped (run e) = False \<and> stdout (run e) = []
    \<and> data_listener (run e) = consumes i \<and> error_listener (run e) = handles_error i
    \<and> stderr (run e) =
        (case document e of
           Inr bs \<Rightarrow> []
         | Inl err \<Rightarrow> if handles_error i then [] else [diagnostic err (document_path e)])
    \<and> exit_code (run e) =
        (case document e of
           Inr bs \<Rightarrow> 0
         | Inl err \<Rightarrow> if handles_error i then 0 else 1)"
proof (cases "document e")
  case (Inl err)
  show ?thesis
    using assms
    by (simp add: Inl cmd_library [OF assms] run_library_fail [OF assms Inl] stdout_def
        pager_input_def require_main_is_module_def)
next
  case (Inr bs)
  show ?thesis
    using assms
    by (simp add: Inr cmd_library [OF assms] run_library_ok [OF assms Inr] stdout_def
        pager_input_def require_main_is_module_def)
qed

theorem library_mode_only_handle_witness:
  "parent sample_library = Some \<lparr>consumes = True, handles_error = True\<rparr>
   \<and> require_main_is_module sample_library = False
   \<and> cmd sample_library = start (createReadStream ''/pkg/bin/../README.md'')
   \<and> pager_stdin (run sample_library) = None \<and> piped (run sample_library) = False
   \<and> stdout (run sample_library) = []
   \<and> stderr (run sample_library) = [] \<and> exit_code (run sample_library) = 0"
proof -
  have p: "parent sample_library = Some \<lparr>consumes = True, handles_error = True\<rparr>"
    by (simp add: sample_library_def)
  have q: "document_path sample_library = ''/pkg/bin/../README.md''"
    by (simp add: document_path_def sample_library_def sample_cli_def)
  show ?thesis
    using p library_mode_only_handle [OF p]
    by (simp add: q sample_library_document)
qed

text \<open>
  Claim C3. The value the module exports is the read stream over the Document. An
  importer that consumes it sees the Document's bytes as \<open>data\<close> events, once, from the
  first byte to the last, and then a single \<open>end\<close>; the handle is then ended.
\<close>

theorem library_stream_emits_document_once:
  assumes "parent e = Some i" and "consumes i" and "document e = Inr bs"
  shows "module_exports (cmd e) = createReadStream (document_path e)
    \<and> emitted (run e) = map Data (chunks highWaterMark bs) @ [End]
    \<and> concat (chunks highWaterMark bs) = bs
    \<and> payload (emitted (run e)) = bs
    \<and> status (module_exports (run e)) = Ended"
  using assms(2)
  by (simp add: cmd_exports run_library_ok [OF assms(1) assms(3)] payload_data
      concat_chunks highWaterMark_pos)

theorem library_stream_emits_document_once_witness:
  "parent sample_library = Some \<lparr>consumes = True, handles_error = True\<rparr>
   \<and> consumes \<lparr>consumes = True, handles_error = True\<rparr>
   \<and> document sample_library = Inr sample_readme
   \<and> payload (emitted (run sample_library)) = sample_readme
   \<and> status (module_exports (run sample_library)) = Ended"
proof -
  have p: "parent sample_library = Some \<lparr>consumes = True, handles_error = True\<rparr>"
    by (simp add: sample_library_def)
  have c: "consumes \<lparr>consumes = True, handles_error = True\<rparr>"
    by simp
  show ?thesis
    using p c sample_library_document
      library_stream_emits_document_once [OF p c sample_library_document]
    by blast
qed

text \<open>
  Claim C4. Started as the top-level program with no file at the Document's path, the
  open fails with \<open>ENOENT\<close>; nobody listens for the error, so the process prints the
  diagnostic on standard error and exits with a code other than zero. The pager has been
  spawned but receives no byte, and standard output stays empty.
\<close>

theorem missing_document_cli:
  assumes "require_main_is_module e" and "fs e (resolve (cwd e) (document_path e)) = None"
  shows "document e = Inl ENOENT
    \<and> status (module_exports (run e)) = Failed ENOENT
    \<and> emitted (run e) = [Error ENOENT]
    \<and> exit_code (run e) \<noteq> 0
    \<and> stderr (run e) = [diagnostic ENOENT (document_path e)]
    \<and> stdout (run e) = []"
proof -
  have d: "document e = Inl ENOENT"
    using assms(2) by (simp add: document_def fs_open_def)
  show ?thesis
    by (simp add: d run_entry_fail [OF main_parent [OF assms(1)] d] stdout_def pager_input_def)
qed

theorem missing_document_cli_witness:
  "require_main_is_module broken_cli
   \<and> fs broken_cli (resolve (cwd broken_cli) (document_path broken_cli)) = None
   \<and> exit_code (run broken_cli) \<noteq> 0
   \<and> stderr (run broken_cli) =
       [''Error: ENOENT: no such file or directory, open /pkg/bin/../README.md'']
   \<and> stdout (run broken_cli) = []"
proof -
  have m: "require_main_is_module broken_cli"
    by (simp add: require_main_is_module_def broken_cli_def sample_cli_def)
  have f: "fs broken_cli (resolve (cwd broken_cli) (document_path broken_cli)) = None"
    by (simp add: broken_cli_def)
  have t: "diagnostic ENOENT (document_path broken_cli) =
      ''Error: ENOENT: no such file or directory, open /pkg/bin/../README.md''"
    by (simp add: diagnostic_def errno_text_def document_path_def broken_cli_def sample_cli_def)
  show ?thesis
    using m f missing_document_cli [OF m f] by (simp add: t)
qed

text \<open>
  Claim C5 says that in library mode a Document that cannot be opened never makes the
  importing process exit. An importer that registers no \<open>error\<close> listener on the handle
  is terminated by the error event: on the broken installation its exit code is 1.
\<close>

theorem library_unhandled_error_counterexample:
  "parent careless_library = Some \<lparr>consumes = True, handles_error = False\<rparr>
   \<and> document careless_library = Inl ENOENT
   \<and> emitted (run careless_library) = [Error ENOENT]
   \<and> exit_code (run careless_library) = 1"
  by (simp add: run_def loaded_def event_loop_def cmd_def require_main_is_module_def
      flowing_def attach_def start_def Let_def document_def document_path_def
      createReadStream_def careless_library_def broken_cli_def sample_cli_def
      drain.simps settled_def stream_step_def fs_open_def)

text \<open>
  Claim C5, amended. In library mode the import itself always returns the handle; a
  Document that cannot be opened (missing or unreadable) shows as one \<open>error\<close> event on
  that handle, which is then failed. The importing process carries on (exit code 0,
  nothing on standard error) exactly when the importer listens for \<open>error\<close> on the
  handle; otherwise the event terminates it with code 1 and the diagnostic.
\<close>

theorem library_open_failure:
  assumes "parent e = Some i" and "document e = Inl err"
  shows "module_exports (cmd e) = createReadStream (document_path e)
    \<and> emitted (run e) = [Error err]
    \<and> status (module_exports (run e)) = Failed err
    \<and> exit_code (run e) = (if handles_error i then 0 else 1)
    \<and> stderr (run e) = (if handles_error i then [] else [diagnostic err (document_path e)])"
  by (simp add: cmd_exports run_library_fail [OF assms])

theorem library_open_failure_witness:
  "parent broken_library = Some \<lparr>consumes = True, handles_error = True\<rparr>
   \<and> document broken_library = Inl ENOENT
   \<and> emitted (run broken_library) = [Error ENOENT]
   \<and> status (module_exports (run broken_library)) = Failed ENOENT
   \<and> exit_code (run broken_library) = 0
   \<and> stderr (run broken_library) = []"
proof -
  have p: "parent broken_library = Some \<lparr>consumes = True, handles_error = True\<rparr>"
    by (simp add: broken_library_def)
  show ?thesis
    using p broken_library_document library_open_failure [OF p broken_library_document]
    by simp
qed

text \<open>
  Claim C6. Two invocations on the same file system from the same installation
  directory, each with a consumer on the handle, whatever their working directories,
  arguments and callers, emit the same events, and the bytes of both are the contents of
  the Document on disk.
\<close>

theorem content_stream_idempotent:
  assumes "fs e2 = fs e1" and "dirname e2 = dirname e1" and "is_absolute (dirname e1)"
    and "document e1 = Inr bs" and "flowing (loaded e1)" and "flowing (loaded e2)"
  shows "payload (emitted (run e1)) = bs \<and> payload (emitted (run e2)) = bs
    \<and> emitted (run e2) = emitted (run e1)"
proof -
  have "document e2 = document e1"
    using assms(1-3) by (simp add: document_absolute)
  then have d2: "document e2 = Inr bs"
    using assms(4) by simp
  show ?thesis
    by (simp add: run_consumed [OF assms(5) assms(4)] run_consumed [OF assms(6) d2]
        payload_data concat_chunks highWaterMark_pos)
qed

theorem content_stream_idempotent_witness:
  "fs sample_library = fs sample_cli \<and> dirname sample_library = dirname sample_cli
   \<and> is_absolute (dirname sample_cli) \<and> document sample_cli = Inr sample_readme
   \<and> flowing (loaded sample_cli) \<and> flowing (loaded sample_library)
   \<and> payload (emitted (run sample_cli)) = sample_readme
   \<and> payload (emitted (run sample_library)) = sample_readme"
proof -
  have a: "fs sample_library = fs sample_cli" "dirname sample_library = dirname sample_cli"
    by (simp_all add: sample_library_def)
  have b: "is_absolute (dirname sample_cli)"
    by (simp add: is_absolute_def sample_cli_def)
  have c: "flowing (loaded sample_cli)" "flowing (loaded sample_library)"
    by (simp_all add: flowing_loaded sample_library_def sample_cli_def)
  show ?thesis
    using a b c sample_cli_document
      content_stream_idempotent [OF a b sample_cli_document c]
    by simp
qed

text \<open>
  Claim C7. Every invocation creates its handle anew, in its initial status. Once a
  consumed handle has delivered the Document and ended, any number of further steps on
  it, and draining it again, give no event and leave it ended: only another invocation,
  with its own handle, reads the Document again.
\<close>

theorem handle_not_restartable:
  assumes "flowing (loaded e)" and "document e = Inr bs"
  shows "status (module_exports (cmd e)) = Opening
    \<and> payload (emitted (run e)) = bs
    \<and> status (module_exports (run e)) = Ended
    \<and> steps n (fs e) (cwd e) (module_exports (run e)) = ([], module_exports (run e))
    \<and> drain (fs e) (cwd e) (module_exports (run e)) = ([], module_exports (run e))"
proof -
  have s: "settled (module_exports (run e))"
    by (simp add: run_consumed [OF assms] settled_def)
  show ?thesis
    using steps_settled [OF s] drain_settled [OF s]
    by (simp add: run_consumed [OF assms] cmd_exports createReadStream_def payload_data
        concat_chunks highWaterMark_pos)
qed

theorem handle_not_restartable_witness:
  "flowing (loaded sample_cli) \<and> document sample_cli = Inr sample_readme
   \<and> status (module_exports (cmd sample_cli)) = Opening
   \<and> status (module_exports (run sample_cli)) = Ended
   \<and> steps 3 (fs sample_cli) (cwd sample_cli) (module_exports (run sample_cli)) =
       ([], module_exports (run sample_cli))"
proof -
  have c: "flowing (loaded sample_cli)"
    by (simp add: flowing_loaded sample_cli_def)
  show ?thesis
    using c sample_cli_document handle_not_restartable [OF c sample_cli_document, where n = 3]
    by simp
qed

text \<open>
  Claim C8. The path of the Document is the directory of the program's own file followed
  by \<open>/../README.md\<close>. Node gives that directory as an absolute path, and then neither
  the Document found nor anything else in the run depends on the working directory.
\<close>

theorem document_path_independent_of_cwd:
  assumes "is_absolute (dirname e)"
  shows "path (module_exports (cmd e)) = dirname e @ ''/../README.md''
    \<and> document (e\<lparr>cwd := wd\<rparr>) = document e
    \<and> run (e\<lparr>cwd := wd\<rparr>) = run e"
proof -
  have d: "document (e\<lparr>cwd := wd\<rparr>) = document e"
    using assms by (simp add: document_absolute)
  have r: "run (e\<lparr>cwd := wd\<rparr>) = run e"
    by (rule run_determined) (simp_all add: d document_path_def)
  show ?thesis
    by (simp add: d r cmd_exports createReadStream_def document_path_def)
qed

theorem document_path_independent_of_cwd_witness:
  "is_absolute (dirname sample_cli)
   \<and> path (module_exports (cmd sample_cli)) = ''/pkg/bin/../README.md''
   \<and> run (sample_cli\<lparr>cwd := ''/tmp''\<rparr>) = run sample_cli"
proof -
  have b: "is_absolute (dirname sample_cli)"
    by (simp add: is_absolute_def sample_cli_def)
  show ?thesis
    using b document_path_independent_of_cwd [OF b, where wd = "''/tmp''"]
    by (simp add: sample_cli_def)
qed

text \<open>
  Claim C9. The program never reads its arguments: the run with any arguments is the run
  without them, so no argument can raise a fault. With no arguments, on an installation
  whose Document can be read, the command ends with exit code 0, nothing on standard
  error, and the Document in the pager.
\<close>

theorem arguments_ignored:
  "run (e\<lparr>argv := args\<rparr>) = run e
   \<and> (require_main_is_module e \<and> document e = Inr bs \<longrightarrow>
        exit_code (run (e\<lparr>argv := []\<rparr>)) = 0 \<and> stderr (run (e\<lparr>argv := []\<rparr>)) = []
        \<and> pager_input (run (e\<lparr>argv := []\<rparr>)) = bs)"
proof -
  have r: "run (e\<lparr>argv := a\<rparr>) = run e" for a
    by (rule run_determined) (simp_all add: document_def document_path_def)
  show ?thesis
    by (auto simp: r run_entry_ok [OF main_parent] pager_input_def concat_chunks
        highWaterMark_pos)
qed

theorem arguments_ignored_witness:
  "run (sample_cli\<lparr>argv := [''--help'', ''x'']\<rparr>) = run sample_cli
   \<and> require_main_is_module sample_cli \<and> document sample_cli = Inr sample_readme
   \<and> exit_code (run (sample_cli\<lparr>argv := []\<rparr>)) = 0
   \<and> stderr (run (sample_cli\<lparr>argv := []\<rparr>)) = []"
  using sample_cli_main sample_cli_document
    arguments_ignored
      [where e = sample_cli and args = "[''--help'', ''x'']" and bs = sample_readme]
  by simp

text \<open>
  Claim C10. In both modes the module body creates the read stream, whose open request
  is issued at once; only the pager and the pipe depend on the entry-point check. So for
  an importer that never touches the handle the open still completes: the process holds
  the Document's descriptor, with no byte emitted, no event and no pager.
\<close>

theorem open_not_gated_by_entry_point_check:
  "status (module_exports (cmd e)) = Opening
   \<and> piped (cmd e) = require_main_is_module e
   \<and> (pager_stdin (cmd e) = None) = (\<not> require_main_is_module e)
   \<and> (parent e = Some i \<and> \<not> consumes i \<and> document e = Inr bs \<longrightarrow>
        module_exports (run e) = \<lparr>path = document_path e, status = Reading bs 0\<rparr>
        \<and> emitted (run e) = [] \<and> pager_stdin (run e) = None)"
proof -
  have a: "status (module_exports (cmd e)) = Opening"
    by (simp add: cmd_exports createReadStream_def)
  have b: "piped (cmd e) = require_main_is_module e"
    "(pager_stdin (cmd e) = None) = (\<not> require_main_is_module e)"
    by (simp_all add: cmd_def Let_def start_def pipe_def pager_def)
  show ?thesis
    by (auto simp: a b run_library_ok)
qed

theorem open_not_gated_by_entry_point_check_witness:
  "parent idle_library = Some \<lparr>consumes = False, handles_error = False\<rparr>
   \<and> \<not> consumes \<lparr>consumes = False, handles_error = False\<rparr>
   \<and> document idle_library = Inr sample_readme
   \<and> status (module_exports (cmd idle_library)) = Opening
   \<and> piped (cmd idle_library) = False
   \<and> module_exports (run idle_library) =
       \<lparr>path = ''/pkg/bin/../README.md'', status = Reading sample_readme 0\<rparr>
   \<and> emitted (run idle_library) = []"
proof -
  have p: "parent idle_library = Some \<lparr>consumes = False, handles_error = False\<rparr>"
    by (simp add: idle_library_def)
  have l: "\<not> require_main_is_module idle_library"
    by (simp add: require_main_is_module_def p)
  have q: "document_path idle_library = ''/pkg/bin/../README.md''"
    by (simp add: document_path_def idle_library_def sample_cli_def)
  show ?thesis
    using p l idle_library_document
      open_not_gated_by_entry_point_check
        [where e = idle_library and i = "\<lparr>consumes = False, handles_error = False\<rparr>"
           and bs = sample_readme]
    by (simp add: q)
qed

end
